theory Spec2Isabelle
  imports Complex_Main "HOL-Library.Word"
begin

section \<open>Data model of rusticengine.cpp\<close>

text \<open>
  The program is one translation unit: the function \<open>project\<close> and \<open>main\<close>, whose body
  is a frame loop. The embedding follows the source statement by statement.

  Numbers. A C++ \<open>float\<close> is read as a real number: \<open>+\<close>, \<open>-\<close>, \<open>*\<close>, \<open>std::cos\<close> and
  \<open>std::sin\<close> are the exact operations, so rounding (which depends on the compiler and
  on the C library as well), overflow to infinity and NaN are outside the model, and
  every statement below about a \<open>float\<close> is a statement in exact arithmetic. The two
  places where the real-number reading has no value are kept as explicit outcomes: a
  division whose divisor is zero, and a \<open>static_cast<int>\<close> whose truncated operand does
  not fit the 32-bit \<open>int\<close> (undefined behaviour in C++). A C++ \<open>int\<close> is a 32-bit word
  read in two's complement by \<open>sint\<close>.

  Effects. The locals of \<open>main\<close> are the fields of one state record, passed through the
  steps of a frame. Standard output and the calls to the platform library are two more
  fields, lists that grow at the end. What the platform answers is an input: the result
  of the three start-up calls, and for each iteration of the frame loop the list of
  events that \<open>SDL_PollEvent\<close> hands over before it returns 0.

  An undefined projection is a value of the frame's output and of nothing else: no
  projection feeds the camera, the flags or the log, so the frame issues its draw calls
  with the coordinates it is given, defined or not, and the loop goes on.
\<close>

record Point3D =
  p_x :: real
  p_y :: real
  p_z :: real

record SDL_Point =
  pt_x :: "32 word"
  pt_y :: "32 word"

datatype undefined_result = Division_By_Zero | Int_Out_Of_Range | Vector_Out_Of_Range

text \<open>\<open>static_cast<int>(v)\<close>: the fractional part is discarded (truncation towards zero);
  the result is undefined when the truncated value is not an \<open>int\<close>.\<close>

definition truncate_real :: "real \<Rightarrow> int" where
  "truncate_real v = (if 0 \<le> v then \<lfloor>v\<rfloor> else \<lceil>v\<rceil>)"

definition fits_int :: "real \<Rightarrow> bool" where
  "fits_int v = (- (2 ^ 31) \<le> truncate_real v \<and> truncate_real v < 2 ^ 31)"

definition static_cast_int :: "real \<Rightarrow> undefined_result + 32 word" where
  "static_cast_int v =
     (if fits_int v then Inr (word_of_int (truncate_real v)) else Inl Int_Out_Of_Range)"

text \<open>The braced return value \<open>{a, b}\<close> of type \<open>SDL_Point\<close> (lines 34-37): both
  conversions are evaluated, and the point is defined when both are.\<close>

definition make_SDL_Point ::
  "undefined_result + 32 word \<Rightarrow> undefined_result + 32 word \<Rightarrow> undefined_result + SDL_Point"
where
  "make_SDL_Point a b =
     (case a of
        Inl e \<Rightarrow> Inl e
      | Inr sx \<Rightarrow> (case b of Inl e \<Rightarrow> Inl e | Inr sy \<Rightarrow> Inr \<lparr>pt_x = sx, pt_y = sy\<rparr>))"

subsection \<open>Rotation and projection with camera (lines 15-38)\<close>

definition project ::
  "Point3D \<Rightarrow> 32 word \<Rightarrow> 32 word \<Rightarrow> real \<Rightarrow> Point3D \<Rightarrow> real \<Rightarrow> real \<Rightarrow> undefined_result + SDL_Point"
where
  "project p cx cy fov camera yaw pitch =
     (let x = p_x p - p_x camera;
          y = p_y p - p_y camera;
          z = p_z p - p_z camera;
          cosYaw = cos yaw;
          sinYaw = sin yaw;
          xz = x * cosYaw - z * sinYaw;
          zz = x * sinYaw + z * cosYaw;
          cosPitch = cos pitch;
          sinPitch = sin pitch;
          yz = y * cosPitch - zz * sinPitch;
          zz2 = y * sinPitch + zz * cosPitch
      in if zz2 + fov = 0 then Inl Division_By_Zero
         else
           let factor = fov / (zz2 + fov)
           in make_SDL_Point
                (static_cast_int (real_of_int (sint cx) + xz * factor))
                (static_cast_int (real_of_int (sint cy) + yz * factor)))"




subsection \<open>Locals of \<open>main\<close> (lines 65-94)\<close>

definition cx :: "32 word" where
  "cx = 1280 div 2"

definition cy :: "32 word" where
  "cy = 720 div 2"

definition fov :: real where
  "fov = 500"

definition moveSpeed :: real where
  "moveSpeed = 16"

definition rotSpeed :: real where
  "rotSpeed = 5 / 100"

text \<open>Standard output is a list of lines. A line of an event is its text; the debug line
  prints five \<open>float\<close>s, which are kept as numbers.\<close>

datatype stdout_line = Text string | Debug_Line real real real real real

text \<open>The calls to the platform library that draw, present and tear down, with their
  arguments. A coordinate handed to \<open>SDL_RenderDrawLine\<close> comes out of \<open>project\<close> and is
  undefined when the projection is.\<close>

type_synonym coord = "undefined_result + 32 word"

datatype sdl_call =
    SDL_SetRenderDrawColor nat nat nat nat
  | SDL_RenderClear
  | SDL_RenderDrawLine coord coord coord coord
  | SDL_RenderPresent
  | SDL_Delay nat
  | SDL_DestroyRenderer
  | SDL_DestroyWindow
  | SDL_Quit

text \<open>The key symbols the \<open>switch\<close> names, and every other one; the event types the loop
  tests, and every other one.\<close>

datatype SDL_Keycode =
    SDLK_w | SDLK_a | SDLK_s | SDLK_d | SDLK_q | SDLK_e
  | SDLK_LEFT | SDLK_RIGHT | SDLK_UP | SDLK_DOWN
  | SDLK_other nat

datatype SDL_Event = SDL_QUIT | SDL_KEYDOWN SDL_Keycode | SDL_KEYUP SDL_Keycode | SDL_other_event

record state =
  camera :: Point3D
  yaw :: real
  pitch :: real
  cube1 :: "Point3D list"
  quit :: bool
  key_w :: bool
  key_a :: bool
  key_s :: bool
  key_d :: bool
  key_q :: bool
  key_e :: bool
  key_left :: bool
  key_right :: bool
  key_up :: bool
  key_down :: bool
  cout :: "stdout_line list"
  calls :: "sdl_call list"

definition initial_state :: state where
  "initial_state =
     \<lparr>camera = \<lparr>p_x = 0, p_y = 0, p_z = 0\<rparr>,
      yaw = 0,
      pitch = 0,
      cube1 =
        [\<lparr>p_x = -100, p_y = -100, p_z = -100\<rparr>,
         \<lparr>p_x = 100, p_y = -100, p_z = -100\<rparr>,
         \<lparr>p_x = 100, p_y = 100, p_z = -100\<rparr>,
         \<lparr>p_x = -100, p_y = 100, p_z = -100\<rparr>,
         \<lparr>p_x = -100, p_y = -100, p_z = 100\<rparr>,
         \<lparr>p_x = 100, p_y = -100, p_z = 100\<rparr>,
         \<lparr>p_x = 100, p_y = 100, p_z = 100\<rparr>,
         \<lparr>p_x = -100, p_y = 100, p_z = 100\<rparr>],
      quit = False,
      key_w = False, key_a = False, key_s = False, key_d = False,
      key_q = False, key_e = False,
      key_left = False, key_right = False, key_up = False, key_down = False,
      cout = [],
      calls = []\<rparr>"

subsection \<open>Handling one event (lines 99-117)\<close>

definition pressed_text :: "bool \<Rightarrow> string" where
  "pressed_text pressed = (if pressed then ''pressed'' else ''released'')"

text \<open>The \<open>switch\<close> on the key symbol: a symbol without a \<open>case\<close> falls through it.\<close>

fun key_switch :: "SDL_Keycode \<Rightarrow> bool \<Rightarrow> state \<Rightarrow> state" where
  "key_switch SDLK_w pressed s =
     s\<lparr>key_w := pressed, cout := cout s @ [Text (''[Event] W '' @ pressed_text pressed)]\<rparr>"
| "key_switch SDLK_a pressed s =
     s\<lparr>key_a := pressed, cout := cout s @ [Text (''[Event] A '' @ pressed_text pressed)]\<rparr>"
| "key_switch SDLK_s pressed s =
     s\<lparr>key_s := pressed, cout := cout s @ [Text (''[Event] S '' @ pressed_text pressed)]\<rparr>"
| "key_switch SDLK_d pressed s =
     s\<lparr>key_d := pressed, cout := cout s @ [Text (''[Event] D '' @ pressed_text pressed)]\<rparr>"
| "key_switch SDLK_q pressed s =
     s\<lparr>key_q := pressed, cout := cout s @ [Text (''[Event] Q '' @ pressed_text pressed)]\<rparr>"
| "key_switch SDLK_e pressed s =
     s\<lparr>key_e := pressed, cout := cout s @ [Text (''[Event] E '' @ pressed_text pressed)]\<rparr>"
| "key_switch SDLK_LEFT pressed s =
     s\<lparr>key_left := pressed, cout := cout s @ [Text (''[Event] LEFT '' @ pressed_text pressed)]\<rparr>"
| "key_switch SDLK_RIGHT pressed s =
     s\<lparr>key_right := pressed, cout := cout s @ [Text (''[Event] RIGHT '' @ pressed_text pressed)]\<rparr>"
| "key_switch SDLK_UP pressed s =
     s\<lparr>key_up := pressed, cout := cout s @ [Text (''[Event] UP '' @ pressed_text pressed)]\<rparr>"
| "key_switch SDLK_DOWN pressed s =
     s\<lparr>key_down := pressed, cout := cout s @ [Text (''[Event] DOWN '' @ pressed_text pressed)]\<rparr>"
| "key_switch (SDLK_other n) pressed s = s"

text \<open>The body of the inner loop: the two \<open>if\<close>s, one after the other.\<close>

definition handle_event :: "SDL_Event \<Rightarrow> state \<Rightarrow> state" where
  "handle_event e s =
     (let s1 = (if e = SDL_QUIT
                then s\<lparr>cout := cout s @ [Text ''[Event] Quit event received.''], quit := True\<rparr>
                else s)
      in case e of
           SDL_KEYDOWN keysym \<Rightarrow> key_switch keysym True s1
         | SDL_KEYUP keysym \<Rightarrow> key_switch keysym False s1
         | _ \<Rightarrow> s1)"

text \<open>\<open>while (SDL_PollEvent(&e))\<close>: the events pending at this frame, oldest first, until
  the queue is empty. Nothing leaves the loop early.\<close>

fun poll_events :: "SDL_Event list \<Rightarrow> state \<Rightarrow> state" where
  "poll_events [] s = s"
| "poll_events (e # pending) s = poll_events pending (handle_event e s)"

subsection \<open>Updating the camera (lines 120-151)\<close>

definition debug_print :: "state \<Rightarrow> state" where
  "debug_print s =
     (if key_w s \<or> key_a s \<or> key_s s \<or> key_d s \<or> key_q s \<or> key_e s \<or>
         key_left s \<or> key_right s \<or> key_up s \<or> key_down s
      then s\<lparr>cout := cout s @
             [Debug_Line (p_x (camera s)) (p_y (camera s)) (p_z (camera s)) (yaw s) (pitch s)]\<rparr>
      else s)"

definition rotate_camera :: "state \<Rightarrow> state" where
  "rotate_camera s =
     (let s1 = (if key_left s then s\<lparr>yaw := yaw s - rotSpeed\<rparr> else s);
          s2 = (if key_right s1 then s1\<lparr>yaw := yaw s1 + rotSpeed\<rparr> else s1);
          s3 = (if key_up s2 then s2\<lparr>pitch := pitch s2 - rotSpeed\<rparr> else s2);
          s4 = (if key_down s3 then s3\<lparr>pitch := pitch s3 + rotSpeed\<rparr> else s3)
      in s4)"

definition move_camera :: "state \<Rightarrow> state" where
  "move_camera s =
     (let s1 = (if key_a s
                then s\<lparr>camera := (camera s)
                       \<lparr>p_x := p_x (camera s) - moveSpeed * cos (yaw s),
                        p_z := p_z (camera s) + moveSpeed * sin (yaw s)\<rparr>\<rparr>
                else s);
          s2 = (if key_d s1
                then s1\<lparr>camera := (camera s1)
                       \<lparr>p_x := p_x (camera s1) + moveSpeed * cos (yaw s1),
                        p_z := p_z (camera s1) - moveSpeed * sin (yaw s1)\<rparr>\<rparr>
                else s1);
          s3 = (if key_w s2
                then s2\<lparr>camera := (camera s2)
                       \<lparr>p_x := p_x (camera s2) + moveSpeed * sin (yaw s2),
                        p_z := p_z (camera s2) + moveSpeed * cos (yaw s2)\<rparr>\<rparr>
                else s2);
          s4 = (if key_s s3
                then s3\<lparr>camera := (camera s3)
                       \<lparr>p_x := p_x (camera s3) - moveSpeed * sin (yaw s3),
                        p_z := p_z (camera s3) - moveSpeed * cos (yaw s3)\<rparr>\<rparr>
                else s3);
          s5 = (if key_q s4
                then s4\<lparr>camera := (camera s4)\<lparr>p_y := p_y (camera s4) - moveSpeed\<rparr>\<rparr>
                else s4);
          s6 = (if key_e s5
                then s5\<lparr>camera := (camera s5)\<lparr>p_y := p_y (camera s5) + moveSpeed\<rparr>\<rparr>
                else s5)
      in s6)"

subsection \<open>Clearing, projecting, drawing and presenting (lines 153-180)\<close>

text \<open>\<open>cube1[i]\<close>: \<open>std::vector::operator[]\<close> is undefined at an index past the end.\<close>

definition cube_vertex :: "Point3D list \<Rightarrow> nat \<Rightarrow> undefined_result + Point3D" where
  "cube_vertex vertices i =
     (if i < length vertices then Inr (vertices ! i) else Inl Vector_Out_Of_Range)"

text \<open>\<open>for (int i = 0; i < 8; ++i) proj[i] = project(cube1[i], cx, cy, fov, camera, yaw, pitch)\<close>\<close>

definition project_cube :: "state \<Rightarrow> (undefined_result + SDL_Point) list" where
  "project_cube s =
     map (\<lambda>i. case cube_vertex (cube1 s) i of
                 Inl e \<Rightarrow> Inl e
               | Inr p \<Rightarrow> project p cx cy fov (camera s) (yaw s) (pitch s))
         [0 ..< 8]"

text \<open>\<open>proj[i].x\<close> and \<open>proj[i].y\<close>\<close>

definition point_x :: "undefined_result + SDL_Point \<Rightarrow> coord" where
  "point_x r = (case r of Inl e \<Rightarrow> Inl e | Inr pt \<Rightarrow> Inr (pt_x pt))"

definition point_y :: "undefined_result + SDL_Point \<Rightarrow> coord" where
  "point_y r = (case r of Inl e \<Rightarrow> Inl e | Inr pt \<Rightarrow> Inr (pt_y pt))"

text \<open>The twelve calls of lines 165-177, in their order.\<close>

definition draw_edges :: "(undefined_result + SDL_Point) list \<Rightarrow> sdl_call list" where
  "draw_edges proj =
     [SDL_RenderDrawLine (point_x (proj ! 0)) (point_y (proj ! 0)) (point_x (proj ! 1)) (point_y (proj ! 1)),
      SDL_RenderDrawLine (point_x (proj ! 1)) (point_y (proj ! 1)) (point_x (proj ! 2)) (point_y (proj ! 2)),
      SDL_RenderDrawLine (point_x (proj ! 2)) (point_y (proj ! 2)) (point_x (proj ! 3)) (point_y (proj ! 3)),
      SDL_RenderDrawLine (point_x (proj ! 3)) (point_y (proj ! 3)) (point_x (proj ! 0)) (point_y (proj ! 0)),
      SDL_RenderDrawLine (point_x (proj ! 4)) (point_y (proj ! 4)) (point_x (proj ! 5)) (point_y (proj ! 5)),
      SDL_RenderDrawLine (point_x (proj ! 5)) (point_y (proj ! 5)) (point_x (proj ! 6)) (point_y (proj ! 6)),
      SDL_RenderDrawLine (point_x (proj ! 6)) (point_y (proj ! 6)) (point_x (proj ! 7)) (point_y (proj ! 7)),
      SDL_RenderDrawLine (point_x (proj ! 7)) (point_y (proj ! 7)) (point_x (proj ! 4)) (point_y (proj ! 4)),
      SDL_RenderDrawLine (point_x (proj ! 0)) (point_y (proj ! 0)) (point_x (proj ! 4)) (point_y (proj ! 4)),
      SDL_RenderDrawLine (point_x (proj ! 1)) (point_y (proj ! 1)) (point_x (proj ! 5)) (point_y (proj ! 5)),
      SDL_RenderDrawLine (point_x (proj ! 2)) (point_y (proj ! 2)) (point_x (proj ! 6)) (point_y (proj ! 6)),
      SDL_RenderDrawLine (point_x (proj ! 3)) (point_y (proj ! 3)) (point_x (proj ! 7)) (point_y (proj ! 7))]"

definition render :: "state \<Rightarrow> state" where
  "render s =
     s\<lparr>calls := calls s
          @ [SDL_SetRenderDrawColor 0 0 0 255, SDL_RenderClear]
          @ [SDL_SetRenderDrawColor 0 128 255 255]
          @ draw_edges (project_cube s)
          @ [SDL_RenderPresent, SDL_Delay 16]\<rparr>"

subsection \<open>The frame loop (lines 96-181) and \<open>main\<close>\<close>

text \<open>One iteration of \<open>while (!quit)\<close>, given the events pending when it polls.\<close>

definition frame :: "SDL_Event list \<Rightarrow> state \<Rightarrow> state" where
  "frame pending s = render (move_camera (rotate_camera (debug_print (poll_events pending s))))"

text \<open>The loop over the polls the platform answers, one list of pending events per
  iteration. \<open>quit\<close> is tested before each iteration only. Where the polls given end and
  \<open>quit\<close> is still false the loop has not ended: the result is \<open>Running\<close>, with the state
  reached.\<close>

datatype loop_state = Running state | Terminated state

fun main_loop :: "SDL_Event list list \<Rightarrow> state \<Rightarrow> loop_state" where
  "main_loop [] s = (if quit s then Terminated s else Running s)"
| "main_loop (pending # polls) s =
     (if quit s then Terminated s else main_loop polls (frame pending s))"


text \<open>What the platform answers at start-up: the value of \<open>SDL_Init\<close>, whether
  \<open>SDL_CreateWindow\<close> and \<open>SDL_CreateRenderer\<close> return a non-null pointer, and the text of
  \<open>SDL_GetError()\<close>.\<close>

record platform =
  SDL_Init :: int
  SDL_CreateWindow :: bool
  SDL_CreateRenderer :: bool
  SDL_GetError :: string

text \<open>What \<open>main\<close> does: its return value (\<open>None\<close> while the loop is \<open>Running\<close>), the lines
  on standard error, the state of the loop, and the teardown calls.\<close>

record process =
  returned :: "int option"
  cerr :: "string list"
  loop :: "loop_state option"
  teardown :: "sdl_call list"

definition main :: "platform \<Rightarrow> SDL_Event list list \<Rightarrow> process" where
  "main sdl polls =
     (if SDL_Init sdl < 0
      then \<lparr>returned = Some 1,
            cerr = [''Couldn't initialize SDL: '' @ SDL_GetError sdl],
            loop = None, teardown = []\<rparr>
      else if \<not> SDL_CreateWindow sdl
      then \<lparr>returned = Some 1,
            cerr = [''Couldn't create window: '' @ SDL_GetError sdl],
            loop = None, teardown = [SDL_Quit]\<rparr>
      else if \<not> SDL_CreateRenderer sdl
      then \<lparr>returned = Some 1,
            cerr = [''Couldn't create renderer: '' @ SDL_GetError sdl],
            loop = None, teardown = [SDL_DestroyWindow, SDL_Quit]\<rparr>
      else
        (case main_loop polls initial_state of
           Running s \<Rightarrow>
             \<lparr>returned = None, cerr = [], loop = Some (Running s), teardown = []\<rparr>
         | Terminated s \<Rightarrow>
             \<lparr>returned = Some 0, cerr = [], loop = Some (Terminated s),
              teardown = [SDL_DestroyRenderer, SDL_DestroyWindow, SDL_Quit]\<rparr>))"

subsection \<open>Reading the state in the words of the specification\<close>

text \<open>The ten recognized keys, the flag each one sets and the name its log line prints.\<close>

fun recognized :: "SDL_Keycode \<Rightarrow> bool" where
  "recognized (SDLK_other n) = False"
| "recognized keysym = True"

fun key_flag :: "SDL_Keycode \<Rightarrow> state \<Rightarrow> bool" where
  "key_flag SDLK_w s = key_w s"
| "key_flag SDLK_a s = key_a s"
| "key_flag SDLK_s s = key_s s"
| "key_flag SDLK_d s = key_d s"
| "key_flag SDLK_q s = key_q s"
| "key_flag SDLK_e s = key_e s"
| "key_flag SDLK_LEFT s = key_left s"
| "key_flag SDLK_RIGHT s = key_right s"
| "key_flag SDLK_UP s = key_up s"
| "key_flag SDLK_DOWN s = key_down s"
| "key_flag (SDLK_other n) s = False"

fun key_name :: "SDL_Keycode \<Rightarrow> string" where
  "key_name SDLK_w = ''W''"
| "key_name SDLK_a = ''A''"
| "key_name SDLK_s = ''S''"
| "key_name SDLK_d = ''D''"
| "key_name SDLK_q = ''Q''"
| "key_name SDLK_e = ''E''"
| "key_name SDLK_LEFT = ''LEFT''"
| "key_name SDLK_RIGHT = ''RIGHT''"
| "key_name SDLK_UP = ''UP''"
| "key_name SDLK_DOWN = ''DOWN''"
| "key_name (SDLK_other n) = []"

text \<open>The ten key flags of a state, in the order of their declaration.\<close>

definition key_flags :: "state \<Rightarrow> bool list" where
  "key_flags s =
     [key_w s, key_a s, key_s s, key_d s, key_q s, key_e s,
      key_left s, key_right s, key_up s, key_down s]"

section \<open>Conversions\<close>



subsection \<open>What each step of the frame leaves alone\<close>

lemma key_switch_frame [simp]:
  "camera (key_switch k b s) = camera s" "yaw (key_switch k b s) = yaw s"
  "pitch (key_switch k b s) = pitch s" "cube1 (key_switch k b s) = cube1 s"
  "quit (key_switch k b s) = quit s" "calls (key_switch k b s) = calls s"
  by (cases k; simp)+

lemma handle_event_frame [simp]:
  "camera (handle_event e s) = camera s" "yaw (handle_event e s) = yaw s"
  "pitch (handle_event e s) = pitch s" "cube1 (handle_event e s) = cube1 s"
  "calls (handle_event e s) = calls s"
  by (cases e; simp add: handle_event_def)+

lemma handle_event_quit: "quit (handle_event e s) = (e = SDL_QUIT \<or> quit s)"
  by (cases e) (simp_all add: handle_event_def)

lemma poll_events_frame [simp]:
  "camera (poll_events pending s) = camera s" "yaw (poll_events pending s) = yaw s"
  "pitch (poll_events pending s) = pitch s" "cube1 (poll_events pending s) = cube1 s"
  "calls (poll_events pending s) = calls s"
  by (induction pending arbitrary: s; simp)+

lemma poll_events_quit: "quit (poll_events pending s) = (SDL_QUIT \<in> set pending \<or> quit s)"
  by (induction pending arbitrary: s) (auto simp: handle_event_quit)

lemma poll_events_append:
  "poll_events (before @ after) s = poll_events after (poll_events before s)"
  by (induction before arbitrary: s) simp_all

lemma debug_print_frame [simp]:
  "camera (debug_print s) = camera s" "yaw (debug_print s) = yaw s"
  "pitch (debug_print s) = pitch s" "cube1 (debug_print s) = cube1 s"
  "calls (debug_print s) = calls s" "quit (debug_print s) = quit s"
  "key_flags (debug_print s) = key_flags s"
  by (simp_all add: debug_print_def key_flags_def)

lemma rotate_camera_frame [simp]:
  "camera (rotate_camera s) = camera s" "cube1 (rotate_camera s) = cube1 s"
  "calls (rotate_camera s) = calls s" "quit (rotate_camera s) = quit s"
  "key_flags (rotate_camera s) = key_flags s" "cout (rotate_camera s) = cout s"
  by (simp_all add: rotate_camera_def key_flags_def Let_def)

lemma move_camera_frame [simp]:
  "yaw (move_camera s) = yaw s" "pitch (move_camera s) = pitch s"
  "cube1 (move_camera s) = cube1 s"
  "calls (move_camera s) = calls s" "quit (move_camera s) = quit s"
  "key_flags (move_camera s) = key_flags s" "cout (move_camera s) = cout s"
  by (simp_all add: move_camera_def key_flags_def Let_def)

lemma render_frame [simp]:
  "camera (render s) = camera s" "yaw (render s) = yaw s" "pitch (render s) = pitch s"
  "cube1 (render s) = cube1 s" "quit (render s) = quit s"
  "key_flags (render s) = key_flags s" "cout (render s) = cout s"
  by (simp_all add: render_def key_flags_def)

lemma frame_quit: "quit (frame pending s) = (SDL_QUIT \<in> set pending \<or> quit s)"
  by (simp add: frame_def poll_events_quit)


lemma frame_calls:
  "calls (frame pending s) =
     calls s @ [SDL_SetRenderDrawColor 0 0 0 255, SDL_RenderClear, SDL_SetRenderDrawColor 0 128 255 255]
       @ draw_edges (project_cube (move_camera (rotate_camera (debug_print (poll_events pending s)))))
       @ [SDL_RenderPresent, SDL_Delay 16]"
  by (simp add: frame_def render_def)


lemma main_loop_quit_received:
  "\<exists>pending \<in> set polls. SDL_QUIT \<in> set pending \<Longrightarrow> \<exists>s'. main_loop polls s = Terminated s'"
proof (induction polls arbitrary: s)
  case Nil
  then show ?case by simp
next
  case (Cons pending polls)
  show ?case
  proof (cases "quit s")
    case True
    then show ?thesis by simp
  next
    case False
    show ?thesis
    proof (cases "SDL_QUIT \<in> set pending")
      case True
      then have "quit (frame pending s)" by (simp add: frame_quit)
      then have "main_loop polls (frame pending s) = Terminated (frame pending s)"
        by (cases polls) simp_all
      with False show ?thesis by simp
    next
      case no: False
      with Cons.prems have "\<exists>pending \<in> set polls. SDL_QUIT \<in> set pending" by simp
      from Cons.IH [OF this] False show ?thesis by simp
    qed
  qed
qed

lemma main_loop_terminated_received:
  "main_loop polls s = Terminated s' \<Longrightarrow> \<not> quit s \<Longrightarrow> \<exists>pending \<in> set polls. SDL_QUIT \<in> set pending"
proof (induction polls arbitrary: s)
  case Nil
  then show ?case by simp
next
  case (Cons pending polls)
  then show ?case
    by (cases "SDL_QUIT \<in> set pending") (auto simp: frame_quit)
qed

section \<open>Projection: the claims\<close>












section \<open>Input handling: the claims\<close>

text \<open>
  C9. For every recognized key, the events key-down, key-up, key-down, key-up leave the
  key's flag false and append exactly four lines to the log, in the order pressed,
  released, pressed, released; each single transition of a recognized key sets or clears
  its flag and appends exactly one line; a key event of an unrecognized key changes
  nothing at all (no flag, no line).
\<close>

theorem key_transitions:
  "(recognized k \<longrightarrow>
      \<not> key_flag k (poll_events [SDL_KEYDOWN k, SDL_KEYUP k, SDL_KEYDOWN k, SDL_KEYUP k] s)
    \<and> cout (poll_events [SDL_KEYDOWN k, SDL_KEYUP k, SDL_KEYDOWN k, SDL_KEYUP k] s) =
        cout s @ [Text (''[Event] '' @ key_name k @ '' pressed''),
                  Text (''[Event] '' @ key_name k @ '' released''),
                  Text (''[Event] '' @ key_name k @ '' pressed''),
                  Text (''[Event] '' @ key_name k @ '' released'')]
    \<and> key_flag k (handle_event (SDL_KEYDOWN k) s)
    \<and> cout (handle_event (SDL_KEYDOWN k) s) =
        cout s @ [Text (''[Event] '' @ key_name k @ '' pressed'')]
    \<and> \<not> key_flag k (handle_event (SDL_KEYUP k) s)
    \<and> cout (handle_event (SDL_KEYUP k) s) =
        cout s @ [Text (''[Event] '' @ key_name k @ '' released'')])
   \<and> (\<not> recognized k \<longrightarrow>
        handle_event (SDL_KEYDOWN k) s = s \<and> handle_event (SDL_KEYUP k) s = s)"
  by (cases k) (simp_all add: handle_event_def pressed_text_def)

theorem key_transitions_witness:
  "recognized SDLK_LEFT
   \<and> \<not> key_left (poll_events [SDL_KEYDOWN SDLK_LEFT, SDL_KEYUP SDLK_LEFT,
                               SDL_KEYDOWN SDLK_LEFT, SDL_KEYUP SDLK_LEFT] initial_state)
   \<and> cout (poll_events [SDL_KEYDOWN SDLK_LEFT, SDL_KEYUP SDLK_LEFT,
                        SDL_KEYDOWN SDLK_LEFT, SDL_KEYUP SDLK_LEFT] initial_state) =
       [Text ''[Event] LEFT pressed'', Text ''[Event] LEFT released'',
        Text ''[Event] LEFT pressed'', Text ''[Event] LEFT released'']
   \<and> \<not> recognized (SDLK_other 27)
   \<and> handle_event (SDL_KEYDOWN (SDLK_other 27)) initial_state = initial_state"
  using key_transitions [of SDLK_LEFT initial_state] key_transitions [of "SDLK_other 27" initial_state]
  by (simp add: initial_state_def)

lemma key_switch_flags:
  "key_flags (key_switch k b s) =
     (case k of
        SDLK_w \<Rightarrow> (key_flags s)[0 := b]
      | SDLK_a \<Rightarrow> (key_flags s)[1 := b]
      | SDLK_s \<Rightarrow> (key_flags s)[2 := b]
      | SDLK_d \<Rightarrow> (key_flags s)[3 := b]
      | SDLK_q \<Rightarrow> (key_flags s)[4 := b]
      | SDLK_e \<Rightarrow> (key_flags s)[5 := b]
      | SDLK_LEFT \<Rightarrow> (key_flags s)[6 := b]
      | SDLK_RIGHT \<Rightarrow> (key_flags s)[7 := b]
      | SDLK_UP \<Rightarrow> (key_flags s)[8 := b]
      | SDLK_DOWN \<Rightarrow> (key_flags s)[9 := b]
      | SDLK_other n \<Rightarrow> key_flags s)"
  by (cases k) (simp_all add: key_flags_def)

lemma key_switch_flags_cong:
  "key_flags s = key_flags t \<Longrightarrow> key_flags (key_switch k b s) = key_flags (key_switch k b t)"
  by (simp only: key_switch_flags)

lemma handle_event_flags:
  "key_flags (handle_event e s) =
     (case e of
        SDL_KEYDOWN k \<Rightarrow> key_flags (key_switch k True s)
      | SDL_KEYUP k \<Rightarrow> key_flags (key_switch k False s)
      | _ \<Rightarrow> key_flags s)"
  by (cases e) (simp_all add: handle_event_def key_flags_def)

lemma handle_event_flags_cong:
  "key_flags s = key_flags t \<Longrightarrow> key_flags (handle_event e s) = key_flags (handle_event e t)"
  by (simp only: handle_event_flags key_switch_flags)

lemma poll_events_flags_cong:
  "key_flags s = key_flags t \<Longrightarrow> key_flags (poll_events pending s) = key_flags (poll_events pending t)"
proof (induction pending arbitrary: s t)
  case Nil
  then show ?case by simp
next
  case (Cons e pending)
  from Cons.prems have "key_flags (handle_event e s) = key_flags (handle_event e t)"
    by (rule handle_event_flags_cong)
  then have "key_flags (poll_events pending (handle_event e s)) =
      key_flags (poll_events pending (handle_event e t))"
    by (rule Cons.IH)
  then show ?case
    by simp
qed

lemma handle_quit:
  "handle_event SDL_QUIT s = s\<lparr>cout := cout s @ [Text ''[Event] Quit event received.''], quit := True\<rparr>"
  by (simp add: handle_event_def)

lemma handle_quit_flags: "key_flags (handle_event SDL_QUIT s) = key_flags s"
  by (simp add: handle_quit key_flags_def)

text \<open>
  C2, as the code has it. A quit event appends its line and sets \<open>quit\<close>, and the poll
  goes on: the events behind it in the same poll are handled exactly as any other event
  is, so the key flags after the poll are the flags the same events give without the
  quit event. \<open>quit\<close> is true after the poll; the frame still issues its whole cycle of
  clear, twelve lines, present and delay; and the loop, if it was running, ends with the
  state of exactly this frame, whatever polls would follow.
\<close>

theorem quit_mid_poll:
  "poll_events (before @ SDL_QUIT # after) s =
      poll_events after (handle_event SDL_QUIT (poll_events before s))
   \<and> handle_event SDL_QUIT s =
       s\<lparr>cout := cout s @ [Text ''[Event] Quit event received.''], quit := True\<rparr>
   \<and> key_flags (poll_events (before @ SDL_QUIT # after) s) =
       key_flags (poll_events (before @ after) s)
   \<and> quit (poll_events (before @ SDL_QUIT # after) s)
   \<and> (\<not> quit s \<longrightarrow>
        main_loop ((before @ SDL_QUIT # after) # polls) s =
          Terminated (frame (before @ SDL_QUIT # after) s))
   \<and> calls (frame (before @ SDL_QUIT # after) s) =
       calls s
       @ [SDL_SetRenderDrawColor 0 0 0 255, SDL_RenderClear, SDL_SetRenderDrawColor 0 128 255 255]
       @ draw_edges (project_cube (move_camera (rotate_camera (debug_print
           (poll_events (before @ SDL_QUIT # after) s)))))
       @ [SDL_RenderPresent, SDL_Delay 16]"
proof (intro conjI impI)
  show "poll_events (before @ SDL_QUIT # after) s =
      poll_events after (handle_event SDL_QUIT (poll_events before s))"
    by (simp add: poll_events_append)
  show "handle_event SDL_QUIT s =
       s\<lparr>cout := cout s @ [Text ''[Event] Quit event received.''], quit := True\<rparr>"
    by (rule handle_quit)
  show "key_flags (poll_events (before @ SDL_QUIT # after) s) =
       key_flags (poll_events (before @ after) s)"
    using poll_events_flags_cong [OF handle_quit_flags [of "poll_events before s"], of after]
    by (simp add: poll_events_append)
  show "quit (poll_events (before @ SDL_QUIT # after) s)"
    by (simp add: poll_events_quit)
  show "main_loop ((before @ SDL_QUIT # after) # polls) s =
          Terminated (frame (before @ SDL_QUIT # after) s)" if "\<not> quit s"
  proof -
    have "quit (frame (before @ SDL_QUIT # after) s)"
      by (simp add: frame_quit)
    then have "main_loop polls (frame (before @ SDL_QUIT # after) s) =
        Terminated (frame (before @ SDL_QUIT # after) s)"
      by (cases polls) simp_all
    with that show ?thesis by simp
  qed
  show "calls (frame (before @ SDL_QUIT # after) s) =
       calls s
       @ [SDL_SetRenderDrawColor 0 0 0 255, SDL_RenderClear, SDL_SetRenderDrawColor 0 128 255 255]
       @ draw_edges (project_cube (move_camera (rotate_camera (debug_print
           (poll_events (before @ SDL_QUIT # after) s)))))
       @ [SDL_RenderPresent, SDL_Delay 16]"
    by (rule frame_calls)
qed

theorem quit_mid_poll_witness:
  "\<not> quit initial_state
   \<and> main_loop (([SDL_KEYDOWN SDLK_a] @ SDL_QUIT # [SDL_KEYDOWN SDLK_w]) # [[SDL_KEYUP SDLK_a]])
        initial_state =
      Terminated (frame ([SDL_KEYDOWN SDLK_a] @ SDL_QUIT # [SDL_KEYDOWN SDLK_w]) initial_state)
   \<and> key_flags (frame ([SDL_KEYDOWN SDLK_a] @ SDL_QUIT # [SDL_KEYDOWN SDLK_w]) initial_state) =
       [True, True, False, False, False, False, False, False, False, False]"
proof -
  have running: "\<not> quit initial_state"
    by (simp add: initial_state_def)
  have "key_flags (poll_events ([SDL_KEYDOWN SDLK_a] @ [SDL_KEYDOWN SDLK_w]) initial_state) =
       [True, True, False, False, False, False, False, False, False, False]"
    by (simp add: initial_state_def handle_event_def key_flags_def)
  with quit_mid_poll [where before = "[SDL_KEYDOWN SDLK_a]" and after = "[SDL_KEYDOWN SDLK_w]"
      and s = initial_state and polls = "[[SDL_KEYUP SDLK_a]]"] running
  show ?thesis
    by (simp add: frame_def)
qed

text \<open>
  C2 as stated says that no event behind a quit event in the same poll is processed.
  From the initial state, the poll that delivers a quit event and then a key-down of W
  sets the flag of W and logs the line of W after the line of the quit event.
\<close>

theorem quit_mid_poll_counterexample:
  "key_w (poll_events [SDL_QUIT, SDL_KEYDOWN SDLK_w] initial_state)
   \<and> \<not> key_w (poll_events [SDL_QUIT] initial_state)
   \<and> cout (poll_events [SDL_QUIT, SDL_KEYDOWN SDLK_w] initial_state) =
       [Text ''[Event] Quit event received.'', Text ''[Event] W pressed'']"
  by (simp add: initial_state_def handle_event_def pressed_text_def)

section \<open>Camera update: the claims\<close>


lemma debug_print_keys [simp]:
  "key_w (debug_print s) = key_w s" "key_a (debug_print s) = key_a s"
  "key_s (debug_print s) = key_s s" "key_d (debug_print s) = key_d s"
  "key_q (debug_print s) = key_q s" "key_e (debug_print s) = key_e s"
  "key_left (debug_print s) = key_left s" "key_right (debug_print s) = key_right s"
  "key_up (debug_print s) = key_up s" "key_down (debug_print s) = key_down s"
  by (simp_all add: debug_print_def)










section \<open>Drawing: the claims\<close>





section \<open>Start-up and exit status: the claims\<close>

lemma initial_state_running: "\<not> quit initial_state"
  by (simp add: initial_state_def)

lemma main_loop_terminated_iff:
  "\<not> quit s \<Longrightarrow>
     (\<exists>s'. main_loop polls s = Terminated s') = (\<exists>pending \<in> set polls. SDL_QUIT \<in> set pending)"
  using main_loop_quit_received main_loop_terminated_received by blast

text \<open>
  C7. \<open>main\<close> returns 1 exactly when \<open>SDL_Init\<close> fails, or the window is not created, or
  the renderer is not created, and each of the three failures writes its own message,
  ending in the platform's error text, to standard error. \<open>main\<close> returns 0 exactly when
  all three succeed and a quit event arrives in one of the polls, with nothing written
  to standard error. It returns nothing else: while no quit event has arrived the loop
  is running.
\<close>

theorem main_exit_status:
  "(returned (main sdl polls) = Some 1 \<longleftrightarrow>
      (SDL_Init sdl < 0 \<or> \<not> SDL_CreateWindow sdl \<or> \<not> SDL_CreateRenderer sdl))
   \<and> (SDL_Init sdl < 0 \<longrightarrow>
        cerr (main sdl polls) = [''Couldn't initialize SDL: '' @ SDL_GetError sdl])
   \<and> (0 \<le> SDL_Init sdl \<and> \<not> SDL_CreateWindow sdl \<longrightarrow>
        cerr (main sdl polls) = [''Couldn't create window: '' @ SDL_GetError sdl])
   \<and> (0 \<le> SDL_Init sdl \<and> SDL_CreateWindow sdl \<and> \<not> SDL_CreateRenderer sdl \<longrightarrow>
        cerr (main sdl polls) = [''Couldn't create renderer: '' @ SDL_GetError sdl])
   \<and> (returned (main sdl polls) = Some 0 \<longleftrightarrow>
        (0 \<le> SDL_Init sdl \<and> SDL_CreateWindow sdl \<and> SDL_CreateRenderer sdl
         \<and> (\<exists>pending \<in> set polls. SDL_QUIT \<in> set pending)))
   \<and> (returned (main sdl polls) = Some 0 \<longrightarrow> cerr (main sdl polls) = [])
   \<and> (returned (main sdl polls) = None \<or> returned (main sdl polls) = Some 0
        \<or> returned (main sdl polls) = Some 1)"
proof -
  have received: "(\<exists>s'. main_loop polls initial_state = Terminated s') =
      (\<exists>pending \<in> set polls. SDL_QUIT \<in> set pending)"
    by (rule main_loop_terminated_iff [OF initial_state_running])
  show ?thesis
  proof (cases "main_loop polls initial_state")
    case (Running s')
    with received have "\<not> (\<exists>pending \<in> set polls. SDL_QUIT \<in> set pending)"
      by simp
    with Running show ?thesis
      by (simp add: main_def)
  next
    case (Terminated s')
    with received have "\<exists>pending \<in> set polls. SDL_QUIT \<in> set pending"
      by simp
    with Terminated show ?thesis
      by (simp add: main_def)
  qed
qed

theorem main_exit_status_witness:
  "returned (main \<lparr>SDL_Init = -1, SDL_CreateWindow = True, SDL_CreateRenderer = True,
                   SDL_GetError = ''No available video device''\<rparr> [[SDL_QUIT]]) = Some 1
   \<and> cerr (main \<lparr>SDL_Init = -1, SDL_CreateWindow = True, SDL_CreateRenderer = True,
                  SDL_GetError = ''No available video device''\<rparr> [[SDL_QUIT]]) =
       [''Couldn't initialize SDL: No available video device'']
   \<and> cerr (main \<lparr>SDL_Init = 0, SDL_CreateWindow = False, SDL_CreateRenderer = True,
                  SDL_GetError = ''no window''\<rparr> [[SDL_QUIT]]) =
       [''Couldn't create window: no window'']
   \<and> cerr (main \<lparr>SDL_Init = 0, SDL_CreateWindow = True, SDL_CreateRenderer = False,
                  SDL_GetError = ''no renderer''\<rparr> [[SDL_QUIT]]) =
       [''Couldn't create renderer: no renderer'']
   \<and> returned (main \<lparr>SDL_Init = 0, SDL_CreateWindow = True, SDL_CreateRenderer = True,
                      SDL_GetError = []\<rparr> [[SDL_KEYDOWN SDLK_w], [SDL_QUIT]]) = Some 0
   \<and> cerr (main \<lparr>SDL_Init = 0, SDL_CreateWindow = True, SDL_CreateRenderer = True,
                  SDL_GetError = []\<rparr> [[SDL_KEYDOWN SDLK_w], [SDL_QUIT]]) = []"
proof -
  let ?polls = "[[SDL_KEYDOWN SDLK_w], [SDL_QUIT]]"
  let ?ok = "\<lparr>SDL_Init = 0, SDL_CreateWindow = True, SDL_CreateRenderer = True, SDL_GetError = []\<rparr>"
  have up: "0 \<le> SDL_Init ?ok \<and> SDL_CreateWindow ?ok \<and> SDL_CreateRenderer ?ok
      \<and> (\<exists>pending \<in> set ?polls. SDL_QUIT \<in> set pending)"
    by simp
  from main_exit_status [of ?ok ?polls] up
  have clean: "returned (main ?ok ?polls) = Some 0" "cerr (main ?ok ?polls) = []"
    by blast+
  show ?thesis
    using clean
      main_exit_status [of "\<lparr>SDL_Init = -1, SDL_CreateWindow = True, SDL_CreateRenderer = True,
                   SDL_GetError = ''No available video device''\<rparr>" "[[SDL_QUIT]]"]
      main_exit_status [of "\<lparr>SDL_Init = 0, SDL_CreateWindow = False, SDL_CreateRenderer = True,
                  SDL_GetError = ''no window''\<rparr>" "[[SDL_QUIT]]"]
      main_exit_status [of "\<lparr>SDL_Init = 0, SDL_CreateWindow = True, SDL_CreateRenderer = False,
                  SDL_GetError = ''no renderer''\<rparr>" "[[SDL_QUIT]]"]
    by simp
qed

end
